theory Spec2Isabelle
  imports Complex_Main "HOL-Library.Sublist"
begin

section \<open>JavaScript numbers\<close>

text \<open>
  Every quantity the classifier and the coast distance estimator handle is a JavaScript
  Number. Besides the finite values a Number can be \<open>NaN\<close>, \<open>Infinity\<close> or
  \<open>-Infinity\<close>, and the source relies on two of them: the running minimum of
  \<open>getCoastDistance\<close> starts at \<open>Infinity\<close>, and every comparison with \<open>NaN\<close> is
  false. A finite Number is modelled by the real it stands for; the comparison operators
  are exact on doubles.
\<close>

datatype jsnum = NaN | NegInf | Fin real | PosInf

text \<open>The relational operators \<open><\<close>, \<open><=\<close>, \<open>>\<close>, \<open>>=\<close> on Numbers.\<close>

definition js_lt :: "jsnum \<Rightarrow> jsnum \<Rightarrow> bool" where
  "js_lt x y =
     (case x of
        NaN \<Rightarrow> False
      | NegInf \<Rightarrow> (case y of NaN \<Rightarrow> False | NegInf \<Rightarrow> False | Fin b \<Rightarrow> True | PosInf \<Rightarrow> True)
      | Fin a \<Rightarrow> (case y of NaN \<Rightarrow> False | NegInf \<Rightarrow> False | Fin b \<Rightarrow> a < b | PosInf \<Rightarrow> True)
      | PosInf \<Rightarrow> False)"

definition js_le :: "jsnum \<Rightarrow> jsnum \<Rightarrow> bool" where
  "js_le x y =
     (case x of
        NaN \<Rightarrow> False
      | NegInf \<Rightarrow> (case y of NaN \<Rightarrow> False | NegInf \<Rightarrow> True | Fin b \<Rightarrow> True | PosInf \<Rightarrow> True)
      | Fin a \<Rightarrow> (case y of NaN \<Rightarrow> False | NegInf \<Rightarrow> False | Fin b \<Rightarrow> a \<le> b | PosInf \<Rightarrow> True)
      | PosInf \<Rightarrow> (case y of NaN \<Rightarrow> False | NegInf \<Rightarrow> False | Fin b \<Rightarrow> False | PosInf \<Rightarrow> True))"

definition js_gt :: "jsnum \<Rightarrow> jsnum \<Rightarrow> bool" where
  "js_gt x y = js_lt y x"

definition js_ge :: "jsnum \<Rightarrow> jsnum \<Rightarrow> bool" where
  "js_ge x y = js_le y x"

text \<open>
  \<open>Math.round\<close>: the nearest integer, a tie going up. It is exact on doubles.
\<close>

definition Math_round :: "jsnum \<Rightarrow> jsnum" where
  "Math_round x = (case x of Fin r \<Rightarrow> Fin (of_int \<lfloor>r + 1 / 2\<rfloor>) | _ \<Rightarrow> x)"

subsection \<open>Double arithmetic\<close>

text \<open>
  A finite Number is a double. The arithmetic operators compute the exact result and
  round it to the nearest double, a tie going to the even significand (IEEE 754
  binary64, round to nearest even); a result beyond the largest double becomes an
  infinity. \<open>fl\<close> is this rounding: \<open>exponent x\<close> is the binary exponent of \<open>x\<close>, not
  below that of the subnormal numbers, and the significand has 53 bits. The two zeros
  of a double are one value here; nothing below tells them apart.
\<close>

definition pow2 :: "int \<Rightarrow> real" where
  "pow2 e = (if 0 \<le> e then 2 ^ nat e else 1 / 2 ^ nat (- e))"

fun binade_from :: "nat \<Rightarrow> int \<Rightarrow> real \<Rightarrow> int" where
  "binade_from 0 e x = e"
| "binade_from (Suc n) e x = (if pow2 e \<le> \<bar>x\<bar> then e else binade_from n (e - 1) x)"

definition exponent :: "real \<Rightarrow> int" where
  "exponent x = binade_from 2045 1023 x"

definition round_half_even :: "real \<Rightarrow> int" where
  "round_half_even q =
     (let f = \<lfloor>q\<rfloor>; r = q - of_int f
      in if r < 1 / 2 then f else if 1 / 2 < r then f + 1 else if even f then f else f + 1)"

definition fl :: "real \<Rightarrow> jsnum" where
  "fl x =
     (let e = exponent x - 52;
          m = round_half_even (\<bar>x\<bar> / pow2 e);
          v = sgn x * of_int m * pow2 e
      in if 2 ^ 1024 \<le> \<bar>v\<bar> then (if 0 < x then PosInf else NegInf) else Fin v)"

text \<open>The operators \<open>+\<close>, \<open>-\<close> and \<open>*\<close> on Numbers.\<close>

definition js_add :: "jsnum \<Rightarrow> jsnum \<Rightarrow> jsnum" where
  "js_add x y =
     (case x of
        NaN \<Rightarrow> NaN
      | NegInf \<Rightarrow> (case y of NaN \<Rightarrow> NaN | NegInf \<Rightarrow> NegInf | Fin b \<Rightarrow> NegInf | PosInf \<Rightarrow> NaN)
      | Fin a \<Rightarrow> (case y of NaN \<Rightarrow> NaN | NegInf \<Rightarrow> NegInf | Fin b \<Rightarrow> fl (a + b) | PosInf \<Rightarrow> PosInf)
      | PosInf \<Rightarrow> (case y of NaN \<Rightarrow> NaN | NegInf \<Rightarrow> NaN | Fin b \<Rightarrow> PosInf | PosInf \<Rightarrow> PosInf))"

definition js_sub :: "jsnum \<Rightarrow> jsnum \<Rightarrow> jsnum" where
  "js_sub x y =
     (case x of
        NaN \<Rightarrow> NaN
      | NegInf \<Rightarrow> (case y of NaN \<Rightarrow> NaN | NegInf \<Rightarrow> NaN | Fin b \<Rightarrow> NegInf | PosInf \<Rightarrow> NegInf)
      | Fin a \<Rightarrow> (case y of NaN \<Rightarrow> NaN | NegInf \<Rightarrow> PosInf | Fin b \<Rightarrow> fl (a - b) | PosInf \<Rightarrow> NegInf)
      | PosInf \<Rightarrow> (case y of NaN \<Rightarrow> NaN | NegInf \<Rightarrow> PosInf | Fin b \<Rightarrow> PosInf | PosInf \<Rightarrow> NaN))"

text \<open>The product of an infinity and a finite Number: \<open>NaN\<close> for zero, else by the signs.\<close>

definition inf_times :: "bool \<Rightarrow> real \<Rightarrow> jsnum" where
  "inf_times positive b =
     (if b = 0 then NaN else if (0 < b) = positive then PosInf else NegInf)"

definition js_mul :: "jsnum \<Rightarrow> jsnum \<Rightarrow> jsnum" where
  "js_mul x y =
     (case x of
        NaN \<Rightarrow> NaN
      | NegInf \<Rightarrow>
          (case y of NaN \<Rightarrow> NaN | NegInf \<Rightarrow> PosInf | Fin b \<Rightarrow> inf_times False b | PosInf \<Rightarrow> NegInf)
      | Fin a \<Rightarrow>
          (case y of
             NaN \<Rightarrow> NaN
           | NegInf \<Rightarrow> inf_times False a
           | Fin b \<Rightarrow> fl (a * b)
           | PosInf \<Rightarrow> inf_times True a)
      | PosInf \<Rightarrow>
          (case y of NaN \<Rightarrow> NaN | NegInf \<Rightarrow> NegInf | Fin b \<Rightarrow> inf_times True b | PosInf \<Rightarrow> PosInf))"

text \<open>
  Division of a Number by a positive finite literal (\<open>meters / 1000\<close>, \<open>dLat / 2\<close>,
  \<open>Math.PI / 180\<close>).
\<close>

definition js_over :: "jsnum \<Rightarrow> real \<Rightarrow> jsnum" where
  "js_over x d = (case x of Fin r \<Rightarrow> fl (r / d) | _ \<Rightarrow> x)"

subsection \<open>Numbers to strings\<close>

definition digit_char :: "nat \<Rightarrow> char" where
  "digit_char d = ''0123456789'' ! (d mod 10)"

fun nat_digits :: "nat \<Rightarrow> string" where
  "nat_digits n = (if n < 10 then [digit_char n] else nat_digits (n div 10) @ [digit_char (n mod 10)])"

declare nat_digits.simps [simp del]

text \<open>
  The string a template literal inserts for a Number. The source applies it to a
  threshold and to results of \<open>Math.round\<close> only, so the finite case is written for
  integral values: the decimal digits, after a minus sign for a negative value. (From
  \<open>10^21\<close> on the runtime prints an exponent notation that depends on the digits of the
  double; the model prints all digits there.)
\<close>

definition Number_toString :: "jsnum \<Rightarrow> string" where
  "Number_toString x =
     (case x of
        NaN \<Rightarrow> ''NaN''
      | NegInf \<Rightarrow> ''-Infinity''
      | PosInf \<Rightarrow> ''Infinity''
      | Fin r \<Rightarrow> (if r < 0 then ''-'' else []) @ nat_digits (nat \<lfloor>\<bar>r\<bar>\<rfloor>))"

text \<open>
  \<open>Number.prototype.toFixed\<close> is the one operation of the modelled functions that can
  raise: a \<open>RangeError\<close> when the digit count is outside \<open>0..100\<close>. Otherwise the
  value is rounded to the integer \<open>n\<close> for which \<open>n / 10^f\<close> is nearest (a tie going
  up), and \<open>n\<close> is printed with a point before its last \<open>f\<close> digits. (As for
  template literals, the runtime changes to exponent notation from \<open>10^21\<close> on and the
  model does not.)
\<close>

datatype js_error = RangeError

definition fixed_digits :: "nat \<Rightarrow> real \<Rightarrow> string" where
  "fixed_digits f r =
     (let n = nat \<lfloor>\<bar>r\<bar> * 10 ^ f + 1 / 2\<rfloor>;
          ds = nat_digits n;
          m = replicate (Suc f - length ds) (CHR ''0'') @ ds;
          k = length m - f
      in (if r < 0 then ''-'' else []) @ (if f = 0 then m else take k m @ ''.'' @ drop k m))"

definition toFixed :: "nat \<Rightarrow> jsnum \<Rightarrow> js_error + string" where
  "toFixed fractionDigits x =
     (if 100 < fractionDigits then Inl RangeError
      else Inr (case x of
                  NaN \<Rightarrow> ''NaN''
                | NegInf \<Rightarrow> ''-Infinity''
                | PosInf \<Rightarrow> ''Infinity''
                | Fin r \<Rightarrow> fixed_digits fractionDigits r))"

section \<open>The terrain classifier\<close>

subsection \<open>Thresholds\<close>

text \<open>
  \<open>TerrainAnalyzer.THRESHOLDS\<close>, the same object literal in both copies of the module.
\<close>

record thresholds =
  COASTAL_DISTANCE :: real
  HIGH_ELEVATION :: real
  MID_ELEVATION_MIN :: real
  LOW_ELEVATION :: real
  LOW_PRECIPITATION :: real

definition THRESHOLDS :: thresholds where
  "THRESHOLDS =
     \<lparr>COASTAL_DISTANCE = 50, HIGH_ELEVATION = 1000, MID_ELEVATION_MIN = 200,
      LOW_ELEVATION = 200, LOW_PRECIPITATION = 250\<rparr>"

text \<open>
  The product of a threshold and a literal slack factor, as \<open>getBestFitRegion\<close> writes it
  (\<open>T.COASTAL_DISTANCE * 1.5\<close>). The model multiplies reals. The four products of the
  source are \<open>50 * 1.5\<close>, \<open>1000 * 0.8\<close>, \<open>250 * 1.2\<close> and \<open>200 * 0.8\<close>; in double
  arithmetic each of them rounds to the exact value \<open>75\<close>, \<open>800\<close>, \<open>300\<close>, \<open>160\<close>
  (the error of the literal times the threshold stays below half a unit in the last
  place), so the real product is the Number the source compares with.
\<close>

definition js_times :: "real \<Rightarrow> real \<Rightarrow> jsnum" where
  "js_times a b = Fin (a * b)"

subsection \<open>The fallback tier\<close>

text \<open>\<open>getBestFitRegion\<close> of \<open>js/terrain-analyzer.js\<close> (the copy with diagnostic logging).\<close>

definition getBestFitRegion :: "jsnum \<Rightarrow> jsnum \<Rightarrow> jsnum \<Rightarrow> string" where
  "getBestFitRegion elevation coastDistance precipitation =
     (let T = THRESHOLDS in
      if js_le coastDistance (js_times (COASTAL_DISTANCE T) 1.5) then ''Neithal''
      else if js_ge elevation (js_times (HIGH_ELEVATION T) 0.8) then ''Kurinji''
      else if js_lt precipitation (js_times (LOW_PRECIPITATION T) 1.2) then ''Paalai''
      else if js_ge elevation (js_times (MID_ELEVATION_MIN T) 0.8)
              \<and> js_lt elevation (Fin (HIGH_ELEVATION T)) then ''Mullai''
      else ''Marudham'')"

text \<open>\<open>getBestFitRegion\<close> of the copy of the module bundled in \<open>js/api-client.js\<close>.\<close>

definition getBestFitRegion_clean :: "jsnum \<Rightarrow> jsnum \<Rightarrow> jsnum \<Rightarrow> string" where
  "getBestFitRegion_clean elevation coastDistance precipitation =
     (let T = THRESHOLDS in
      if js_le coastDistance (js_times (COASTAL_DISTANCE T) 1.5) then ''Neithal''
      else if js_ge elevation (js_times (HIGH_ELEVATION T) 0.8) then ''Kurinji''
      else if js_lt precipitation (js_times (LOW_PRECIPITATION T) 1.2) then ''Paalai''
      else if js_ge elevation (js_times (MID_ELEVATION_MIN T) 0.8)
              \<and> js_lt elevation (Fin (HIGH_ELEVATION T)) then ''Mullai''
      else ''Marudham'')"

subsection \<open>The strict tier\<close>

text \<open>
  The five checks of \<open>applyClassificationRules\<close>. The instrumented copy binds each of
  them to a constant of this name before it tests it; the bundled copy writes the same
  expressions inside its \<open>if\<close> conditions.
\<close>

definition neithalCheck :: "jsnum \<Rightarrow> jsnum \<Rightarrow> jsnum \<Rightarrow> bool" where
  "neithalCheck elevation coastDistance precipitation =
     (let T = THRESHOLDS in
      js_le coastDistance (Fin (COASTAL_DISTANCE T)) \<and> js_lt elevation (Fin (LOW_ELEVATION T)))"

definition kurinjiCheck :: "jsnum \<Rightarrow> jsnum \<Rightarrow> jsnum \<Rightarrow> bool" where
  "kurinjiCheck elevation coastDistance precipitation =
     (let T = THRESHOLDS in
      js_ge elevation (Fin (HIGH_ELEVATION T)) \<and> js_gt coastDistance (Fin (COASTAL_DISTANCE T)))"

definition paalaiCheck :: "jsnum \<Rightarrow> jsnum \<Rightarrow> jsnum \<Rightarrow> bool" where
  "paalaiCheck elevation coastDistance precipitation =
     (let T = THRESHOLDS in
      js_lt precipitation (Fin (LOW_PRECIPITATION T)) \<and>
      js_lt elevation (Fin (HIGH_ELEVATION T)) \<and>
      js_gt coastDistance (Fin (COASTAL_DISTANCE T)))"

definition mullaiCheck :: "jsnum \<Rightarrow> jsnum \<Rightarrow> jsnum \<Rightarrow> bool" where
  "mullaiCheck elevation coastDistance precipitation =
     (let T = THRESHOLDS in
      js_ge elevation (Fin (MID_ELEVATION_MIN T)) \<and>
      js_lt elevation (Fin (HIGH_ELEVATION T)) \<and>
      js_ge precipitation (Fin (LOW_PRECIPITATION T)) \<and>
      js_gt coastDistance (Fin (COASTAL_DISTANCE T)))"

definition marudhamCheck :: "jsnum \<Rightarrow> jsnum \<Rightarrow> jsnum \<Rightarrow> bool" where
  "marudhamCheck elevation coastDistance precipitation =
     (let T = THRESHOLDS in
      js_lt elevation (Fin (LOW_ELEVATION T)) \<and>
      js_ge precipitation (Fin (LOW_PRECIPITATION T)) \<and>
      js_gt coastDistance (Fin (COASTAL_DISTANCE T)))"

text \<open>
  The instrumented copy logs each check before it tests it. Logging does not change the
  result, so the console output is not part of the model, but the arguments of a log call
  are evaluated, and one of them calls \<open>coastDistance.toFixed(1)\<close>: when the Neithal
  check fails and the coast distance is above the threshold. This is the only place
  where the function could raise.
\<close>

definition neithalLog :: "jsnum \<Rightarrow> jsnum \<Rightarrow> bool \<Rightarrow> js_error + unit" where
  "neithalLog elevation coastDistance passes =
     (let T = THRESHOLDS in
      if \<not> passes then
        (if js_gt coastDistance (Fin (COASTAL_DISTANCE T)) then
           (case toFixed 1 coastDistance of Inl err \<Rightarrow> Inl err | Inr txt \<Rightarrow> Inr ())
         else Inr ())
      else Inr ())"

text \<open>\<open>applyClassificationRules\<close> of \<open>js/terrain-analyzer.js\<close>, the instrumented copy.\<close>

definition applyClassificationRules :: "jsnum \<Rightarrow> jsnum \<Rightarrow> jsnum \<Rightarrow> js_error + string" where
  "applyClassificationRules elevation coastDistance precipitation =
     (case neithalLog elevation coastDistance (neithalCheck elevation coastDistance precipitation) of
        Inl err \<Rightarrow> Inl err
      | Inr logged \<Rightarrow>
          if neithalCheck elevation coastDistance precipitation then Inr ''Neithal''
          else if kurinjiCheck elevation coastDistance precipitation then Inr ''Kurinji''
          else if paalaiCheck elevation coastDistance precipitation then Inr ''Paalai''
          else if mullaiCheck elevation coastDistance precipitation then Inr ''Mullai''
          else if marudhamCheck elevation coastDistance precipitation then Inr ''Marudham''
          else Inr (getBestFitRegion elevation coastDistance precipitation))"

text \<open>
  \<open>applyClassificationRules\<close> of the copy bundled in \<open>js/api-client.js\<close>: no logging,
  the conditions written in place.
\<close>

definition applyClassificationRules_clean :: "jsnum \<Rightarrow> jsnum \<Rightarrow> jsnum \<Rightarrow> string" where
  "applyClassificationRules_clean elevation coastDistance precipitation =
     (let T = THRESHOLDS in
      if js_le coastDistance (Fin (COASTAL_DISTANCE T)) \<and> js_lt elevation (Fin (LOW_ELEVATION T))
      then ''Neithal''
      else if js_ge elevation (Fin (HIGH_ELEVATION T)) \<and> js_gt coastDistance (Fin (COASTAL_DISTANCE T))
      then ''Kurinji''
      else if js_lt precipitation (Fin (LOW_PRECIPITATION T)) \<and>
              js_lt elevation (Fin (HIGH_ELEVATION T)) \<and>
              js_gt coastDistance (Fin (COASTAL_DISTANCE T))
      then ''Paalai''
      else if js_ge elevation (Fin (MID_ELEVATION_MIN T)) \<and>
              js_lt elevation (Fin (HIGH_ELEVATION T)) \<and>
              js_ge precipitation (Fin (LOW_PRECIPITATION T)) \<and>
              js_gt coastDistance (Fin (COASTAL_DISTANCE T))
      then ''Mullai''
      else if js_lt elevation (Fin (LOW_ELEVATION T)) \<and>
              js_ge precipitation (Fin (LOW_PRECIPITATION T)) \<and>
              js_gt coastDistance (Fin (COASTAL_DISTANCE T))
      then ''Marudham''
      else getBestFitRegion_clean elevation coastDistance precipitation)"

subsection \<open>Explanations\<close>

text \<open>\<open>formatElevation\<close> and \<open>formatPrecipitation\<close>, the same in both copies.\<close>

definition formatElevation :: "jsnum \<Rightarrow> js_error + string" where
  "formatElevation meters =
     (if js_lt meters (Fin 0) then Inr ''Below sea level''
      else if js_lt meters (Fin 1000) then Inr (Number_toString (Math_round meters) @ '' m'')
      else (case toFixed 2 (js_over meters 1000) of
              Inl err \<Rightarrow> Inl err
            | Inr txt \<Rightarrow> Inr (txt @ '' km'')))"

definition formatPrecipitation :: "jsnum \<Rightarrow> string" where
  "formatPrecipitation mm = Number_toString (Math_round mm) @ '' mm/year''"

text \<open>The \<open>terrainData\<close> object that \<open>classifyLocation\<close> builds and the explanation reads.\<close>

record terrain_data =
  elevation :: jsnum
  coastDistance :: jsnum
  precipitation :: jsnum

definition terrainData_of :: "jsnum \<Rightarrow> jsnum \<Rightarrow> jsnum \<Rightarrow> terrain_data" where
  "terrainData_of e c p = \<lparr>elevation = e, coastDistance = c, precipitation = p\<rparr>"

text \<open>
  \<open>getClassificationExplanation\<close>: a \<open>switch\<close> on the region name that pushes the
  reasons of that region. A name that is none of the five cases leaves the list empty.
\<close>

definition getClassificationExplanation :: "string \<Rightarrow> terrain_data \<Rightarrow> js_error + string list" where
  "getClassificationExplanation region terrainData =
     (let T = THRESHOLDS in
      if region = ''Neithal'' then
        (case formatElevation (elevation terrainData) of
           Inl err \<Rightarrow> Inl err
         | Inr el \<Rightarrow>
             Inr [''Within '' @ Number_toString (Fin (COASTAL_DISTANCE T)) @ ''km of the coast'',
                  ''Low elevation ('' @ el @ '')''])
      else if region = ''Kurinji'' then
        (case formatElevation (elevation terrainData) of
           Inl err \<Rightarrow> Inl err
         | Inr el \<Rightarrow> Inr [''High elevation ('' @ el @ '')'', ''Mountainous terrain''])
      else if region = ''Paalai'' then
        Inr [''Low annual rainfall ('' @ formatPrecipitation (precipitation terrainData) @ '')'',
             ''Arid conditions'']
      else if region = ''Mullai'' then
        (case formatElevation (elevation terrainData) of
           Inl err \<Rightarrow> Inl err
         | Inr el \<Rightarrow>
             Inr [''Mid-altitude elevation ('' @ el @ '')'',
                  ''Adequate rainfall for vegetation'',
                  ''Inland location''])
      else if region = ''Marudham'' then
        (case formatElevation (elevation terrainData) of
           Inl err \<Rightarrow> Inl err
         | Inr el \<Rightarrow>
             Inr [''Low elevation ('' @ el @ '')'',
                  ''Adequate rainfall for agriculture'',
                  ''Fertile plains''])
      else Inr [])"

text \<open>
  What a reason says about the sample, read off its label. The two readings the
  specification spells out are "Within 50km of the coast" (coast distance at most 50) and
  "Low elevation" (elevation below 200); the other labels are read by the threshold they
  name in the same way. A label that names no quantity ("Mountainous terrain", "Arid
  conditions", "Fertile plains") states no condition.
\<close>

definition stated_condition :: "string \<Rightarrow> terrain_data \<Rightarrow> bool" where
  "stated_condition reason terrainData =
     (if prefix ''Within 50km of the coast'' reason then js_le (coastDistance terrainData) (Fin 50)
      else if prefix ''Low elevation'' reason then js_lt (elevation terrainData) (Fin 200)
      else if prefix ''High elevation'' reason then js_ge (elevation terrainData) (Fin 1000)
      else if prefix ''Low annual rainfall'' reason then js_lt (precipitation terrainData) (Fin 250)
      else if prefix ''Mid-altitude elevation'' reason then
        js_ge (elevation terrainData) (Fin 200) \<and> js_lt (elevation terrainData) (Fin 1000)
      else if prefix ''Adequate rainfall'' reason then js_ge (precipitation terrainData) (Fin 250)
      else if prefix ''Inland location'' reason then js_gt (coastDistance terrainData) (Fin 50)
      else True)"

section \<open>The coast distance estimator\<close>

subsection \<open>Great-circle distance\<close>

text \<open>\<open>Math.PI\<close>, the double nearest to \<open>\<pi>\<close>: 3.141592653589793.\<close>

definition Math_PI :: real where
  "Math_PI = 884279719003555 / 2 ^ 48"

definition toRadians :: "jsnum \<Rightarrow> jsnum" where
  "toRadians degrees = js_mul degrees (js_over (Fin Math_PI) 180)"

text \<open>
  \<open>Math.sqrt\<close>: \<open>NaN\<close> for a negative Number, else the rounded square root.
\<close>

definition Math_sqrt :: "jsnum \<Rightarrow> jsnum" where
  "Math_sqrt x =
     (case x of
        NaN \<Rightarrow> NaN
      | NegInf \<Rightarrow> NaN
      | Fin r \<Rightarrow> (if r < 0 then NaN else fl (sqrt r))
      | PosInf \<Rightarrow> PosInf)"

text \<open>
  \<open>Math.sin\<close>, \<open>Math.cos\<close> and \<open>Math.atan2\<close> return approximations that the language
  leaves to the implementation, so the values they take on Numbers other than \<open>NaN\<close>
  are a parameter of the model. What the language fixes is written out: the sine and
  the cosine of an infinity or of \<open>NaN\<close> are \<open>NaN\<close>, and \<open>Math.atan2\<close> is \<open>NaN\<close> as soon
  as one argument is.
\<close>

record js_math =
  math_sin :: "real \<Rightarrow> real"
  math_cos :: "real \<Rightarrow> real"
  math_atan2 :: "jsnum \<Rightarrow> jsnum \<Rightarrow> real"

definition Math_sin :: "js_math \<Rightarrow> jsnum \<Rightarrow> jsnum" where
  "Math_sin rt x = (case x of Fin r \<Rightarrow> Fin (math_sin rt r) | _ \<Rightarrow> NaN)"

definition Math_cos :: "js_math \<Rightarrow> jsnum \<Rightarrow> jsnum" where
  "Math_cos rt x = (case x of Fin r \<Rightarrow> Fin (math_cos rt r) | _ \<Rightarrow> NaN)"

definition Math_atan2 :: "js_math \<Rightarrow> jsnum \<Rightarrow> jsnum \<Rightarrow> jsnum" where
  "Math_atan2 rt y x = (if y = NaN \<or> x = NaN then NaN else Fin (math_atan2 rt y x))"

text \<open>
  \<open>haversineDistance\<close>. Its constant \<open>a\<close>, with the two differences \<open>dLat\<close> and \<open>dLon\<close>
  it is computed from, is a definition of its own, so that the properties below can name
  it.
\<close>

definition haversine_a :: "js_math \<Rightarrow> jsnum \<Rightarrow> jsnum \<Rightarrow> jsnum \<Rightarrow> jsnum \<Rightarrow> jsnum" where
  "haversine_a rt lat1 lon1 lat2 lon2 =
     (let dLat = toRadians (js_sub lat2 lat1);
          dLon = toRadians (js_sub lon2 lon1)
      in js_add
           (js_mul (Math_sin rt (js_over dLat 2)) (Math_sin rt (js_over dLat 2)))
           (js_mul
              (js_mul
                 (js_mul (Math_cos rt (toRadians lat1)) (Math_cos rt (toRadians lat2)))
                 (Math_sin rt (js_over dLon 2)))
              (Math_sin rt (js_over dLon 2))))"

definition haversineDistance :: "js_math \<Rightarrow> jsnum \<Rightarrow> jsnum \<Rightarrow> jsnum \<Rightarrow> jsnum \<Rightarrow> jsnum" where
  "haversineDistance rt lat1 lon1 lat2 lon2 =
     (let R = Fin 6371;
          a = haversine_a rt lat1 lon1 lat2 lon2;
          c = js_mul (Fin 2) (Math_atan2 rt (Math_sqrt a) (Math_sqrt (js_sub (Fin 1) a)));
          distance = js_mul R c
      in distance)"

text \<open>
  A table of the transcendental functions at the arguments that the distance between
  the points (-8, -112) and (8, 68) needs, in either direction: the doubles nearest to
  the exact values, which is what a correctly rounding library returns. Elsewhere the
  table gives the exact value.
\<close>

definition exact_atan2 :: "jsnum \<Rightarrow> jsnum \<Rightarrow> real" where
  "exact_atan2 y x =
     (case y of
        NaN \<Rightarrow> 0
      | NegInf \<Rightarrow> (case x of NegInf \<Rightarrow> - (3 * pi / 4) | PosInf \<Rightarrow> - (pi / 4) | _ \<Rightarrow> - (pi / 2))
      | PosInf \<Rightarrow> (case x of NegInf \<Rightarrow> 3 * pi / 4 | PosInf \<Rightarrow> pi / 4 | _ \<Rightarrow> pi / 2)
      | Fin b \<Rightarrow>
          (case x of
             NaN \<Rightarrow> 0
           | NegInf \<Rightarrow> (if 0 \<le> b then pi else - pi)
           | PosInf \<Rightarrow> 0
           | Fin a \<Rightarrow>
               (if 0 < a then arctan (b / a)
                else if a < 0 then (if 0 \<le> b then arctan (b / a) + pi else arctan (b / a) - pi)
                else if 0 < b then pi / 2
                else if b < 0 then - (pi / 2)
                else 0)))"

definition rounded_math :: js_math where
  "rounded_math =
     \<lparr>math_sin = (\<lambda>x. if \<bar>x\<bar> = 5030569068109113 / 2 ^ 55
                       then sgn x * (5014239404989977 / 2 ^ 55)
                       else if \<bar>x\<bar> = 7074237752028440 / 2 ^ 52 then sgn x
                       else sin x),
      math_cos = (\<lambda>x. if \<bar>x\<bar> = 5030569068109113 / 2 ^ 55
                       then 8919541810762874 / 2 ^ 53
                       else cos x),
      math_atan2 = exact_atan2\<rparr>"

text \<open>
  The comparisons the symmetry property is worded with: \<open>==\<close> on Numbers, and equality
  within a relative tolerance of \<open>1e-9\<close>. Both are false when an operand is \<open>NaN\<close>.
\<close>

definition js_eq :: "jsnum \<Rightarrow> jsnum \<Rightarrow> bool" where
  "js_eq x y = (if x = NaN \<or> y = NaN then False else x = y)"

definition within_tolerance :: "jsnum \<Rightarrow> jsnum \<Rightarrow> bool" where
  "within_tolerance x y =
     (case x of
        Fin a \<Rightarrow> (case y of Fin b \<Rightarrow> \<bar>a - b\<bar> \<le> 1 / 10 ^ 9 * max \<bar>a\<bar> \<bar>b\<bar> | _ \<Rightarrow> False)
      | _ \<Rightarrow> js_eq x y)"

subsection \<open>The cache in front of the scan\<close>

text \<open>
  \<open>getFromCache\<close> and \<open>saveToCache\<close> keep results in the browser's \<open>localStorage\<close>, as
  JSON text under a key that spells out the coordinates (\<open>coast_<lat>_<lon>\<close>). The
  printed form of a Number determines it, so the key of the model is the pair of
  coordinates; the keys of the other modules are kept apart. JSON has no text for a
  Number that is not finite: \<open>JSON.stringify\<close> writes \<open>null\<close> for it, and the value
  read back is \<open>null\<close>.
\<close>

datatype cache_key = CoastKey real real | OtherKey string

record cache_item =
  val :: "real option"
  timestamp :: int

type_synonym local_storage = "cache_key \<rightharpoonup> cache_item"

text \<open>
  What a call finds around it: the clock (\<open>Date.now()\<close>), whether \<open>localStorage\<close> can be
  used at all, and whether it accepts another item. Both functions catch the exception
  of a failed access and carry on.
\<close>

record environment =
  now :: int
  storage_available :: bool
  storage_has_room :: bool

definition CACHE_DURATION :: int where
  "CACHE_DURATION = 24 * 60 * 60 * 1000"

definition getFromCache :: "environment \<Rightarrow> local_storage \<Rightarrow> cache_key \<Rightarrow> real option \<times> local_storage" where
  "getFromCache env store key =
     (if \<not> storage_available env then (None, store)
      else (case store key of
              None \<Rightarrow> (None, store)
            | Some item \<Rightarrow>
                if now env - timestamp item < CACHE_DURATION then (val item, store)
                else (None, store(key := None))))"

definition json_number :: "jsnum \<Rightarrow> real option" where
  "json_number x = (case x of Fin r \<Rightarrow> Some r | _ \<Rightarrow> None)"

definition saveToCache :: "environment \<Rightarrow> local_storage \<Rightarrow> cache_key \<Rightarrow> jsnum \<Rightarrow> local_storage" where
  "saveToCache env store key v =
     (if storage_available env \<and> storage_has_room env
      then store(key \<mapsto> \<lparr>val = json_number v, timestamp = now env\<rparr>)
      else store)"

subsection \<open>The scan\<close>

record point =
  lat :: real
  lon :: real

text \<open>\<open>Math.min\<close> of two Numbers: \<open>NaN\<close> as soon as one of them is.\<close>

definition Math_min :: "jsnum \<Rightarrow> jsnum \<Rightarrow> jsnum" where
  "Math_min x y = (if x = NaN \<or> y = NaN then NaN else if js_lt y x then y else x)"

text \<open>
  The loop of \<open>getCoastDistance\<close> over the reference points, with the running minimum
  as its state.
\<close>

fun coastLoop :: "js_math \<Rightarrow> real \<Rightarrow> real \<Rightarrow> point list \<Rightarrow> jsnum \<Rightarrow> jsnum" where
  "coastLoop rt qlat qlon [] minDistance = minDistance"
| "coastLoop rt qlat qlon (point # rest) minDistance =
     (let distance = haversineDistance rt (Fin qlat) (Fin qlon) (Fin (lat point)) (Fin (lon point))
      in coastLoop rt qlat qlon rest (Math_min minDistance distance))"

text \<open>
  \<open>getCoastDistance\<close> of \<open>js/api-client.js\<close>, for finite coordinates. The reference
  points, which the source takes from \<open>getCoastalReferencePoints()\<close>, are a parameter.
  The function returns its result and leaves the storage changed.
\<close>

definition getCoastDistance ::
    "js_math \<Rightarrow> environment \<Rightarrow> point list \<Rightarrow> local_storage \<Rightarrow> real \<Rightarrow> real \<Rightarrow>
     jsnum \<times> local_storage" where
  "getCoastDistance rt env coastalPoints store qlat qlon =
     (let cacheKey = CoastKey qlat qlon;
          (cached, store1) = getFromCache env store cacheKey
      in case cached of
           Some v \<Rightarrow> (Fin v, store1)
         | None \<Rightarrow>
             (let minDistance = coastLoop rt qlat qlon coastalPoints PosInf
              in (minDistance, saveToCache env store1 cacheKey minDistance)))"

section \<open>Properties of the classifier\<close>

subsection \<open>Comparisons\<close>

lemmas js_cmp_defs = js_le_def js_lt_def js_gt_def js_ge_def

lemma fin_cmp [simp]:
  "js_lt (Fin a) (Fin b) = (a < b)" "js_le (Fin a) (Fin b) = (a \<le> b)"
  "js_gt (Fin a) (Fin b) = (b < a)" "js_ge (Fin a) (Fin b) = (b \<le> a)"
  by (simp_all add: js_cmp_defs)

lemma nan_cmp: "\<not> js_lt NaN x \<and> \<not> js_le NaN x \<and> \<not> js_gt NaN x \<and> \<not> js_ge NaN x"
  by (cases x) (simp_all add: js_cmp_defs)

lemma js_le_trans: "js_le a b \<Longrightarrow> js_le b c \<Longrightarrow> js_le a c"
  by (cases a; cases b; cases c) (simp_all add: js_le_def)

subsection \<open>The two tiers as cascades\<close>

text \<open>The log call of the instrumented copy never raises: its digit count is \<open>1\<close>.\<close>

lemma neithalLog_ok: "neithalLog e c b = Inr ()"
  by (simp add: neithalLog_def toFixed_def)

lemma apply_cascade:
  "applyClassificationRules e c p =
     Inr (if neithalCheck e c p then ''Neithal''
          else if kurinjiCheck e c p then ''Kurinji''
          else if paalaiCheck e c p then ''Paalai''
          else if mullaiCheck e c p then ''Mullai''
          else if marudhamCheck e c p then ''Marudham''
          else getBestFitRegion e c p)"
  by (simp add: applyClassificationRules_def neithalLog_ok)

text \<open>Each check with the values of \<open>THRESHOLDS\<close> filled in.\<close>

lemma neithalCheck_iff: "neithalCheck e c p = (js_le c (Fin 50) \<and> js_lt e (Fin 200))"
  by (simp add: neithalCheck_def THRESHOLDS_def)

lemma kurinjiCheck_iff: "kurinjiCheck e c p = (js_ge e (Fin 1000) \<and> js_gt c (Fin 50))"
  by (simp add: kurinjiCheck_def THRESHOLDS_def)

lemma paalaiCheck_iff:
  "paalaiCheck e c p = (js_lt p (Fin 250) \<and> js_lt e (Fin 1000) \<and> js_gt c (Fin 50))"
  by (simp add: paalaiCheck_def THRESHOLDS_def)

lemma mullaiCheck_iff:
  "mullaiCheck e c p =
     (js_ge e (Fin 200) \<and> js_lt e (Fin 1000) \<and> js_ge p (Fin 250) \<and> js_gt c (Fin 50))"
  by (simp add: mullaiCheck_def THRESHOLDS_def)

lemma marudhamCheck_iff:
  "marudhamCheck e c p = (js_lt e (Fin 200) \<and> js_ge p (Fin 250) \<and> js_gt c (Fin 50))"
  by (simp add: marudhamCheck_def THRESHOLDS_def)

lemmas check_iffs =
  neithalCheck_iff kurinjiCheck_iff paalaiCheck_iff mullaiCheck_iff marudhamCheck_iff

lemma apply_cascade_thresholds:
  "applyClassificationRules e c p =
     Inr (if js_le c (Fin 50) \<and> js_lt e (Fin 200) then ''Neithal''
          else if js_ge e (Fin 1000) \<and> js_gt c (Fin 50) then ''Kurinji''
          else if js_lt p (Fin 250) \<and> js_lt e (Fin 1000) \<and> js_gt c (Fin 50) then ''Paalai''
          else if js_ge e (Fin 200) \<and> js_lt e (Fin 1000) \<and> js_ge p (Fin 250) \<and> js_gt c (Fin 50)
          then ''Mullai''
          else if js_lt e (Fin 200) \<and> js_ge p (Fin 250) \<and> js_gt c (Fin 50) then ''Marudham''
          else getBestFitRegion e c p)"
  by (simp only: apply_cascade check_iffs)

lemma best_fit_thresholds:
  "getBestFitRegion e c p =
     (if js_le c (Fin (50 * 1.5)) then ''Neithal''
      else if js_ge e (Fin (1000 * 0.8)) then ''Kurinji''
      else if js_lt p (Fin (250 * 1.2)) then ''Paalai''
      else if js_ge e (Fin (200 * 0.8)) \<and> js_lt e (Fin 1000) then ''Mullai''
      else ''Marudham'')"
  by (simp add: getBestFitRegion_def THRESHOLDS_def js_times_def Let_def
        split del: if_split cong: if_cong)

lemma best_fit_clean: "getBestFitRegion_clean e c p = getBestFitRegion e c p"
  by (simp only: getBestFitRegion_def getBestFitRegion_clean_def)

lemma clean_cascade:
  "applyClassificationRules_clean e c p =
     (if neithalCheck e c p then ''Neithal''
      else if kurinjiCheck e c p then ''Kurinji''
      else if paalaiCheck e c p then ''Paalai''
      else if mullaiCheck e c p then ''Mullai''
      else if marudhamCheck e c p then ''Marudham''
      else getBestFitRegion e c p)"
  by (simp only: applyClassificationRules_clean_def neithalCheck_def kurinjiCheck_def
        paalaiCheck_def mullaiCheck_def marudhamCheck_def Let_def best_fit_clean)

lemma best_fit_in_five:
  "getBestFitRegion e c p \<in> {''Neithal'', ''Kurinji'', ''Paalai'', ''Mullai'', ''Marudham''}"
  by (simp add: getBestFitRegion_def Let_def)

lemma apply_in_five:
  "\<exists>r. applyClassificationRules e c p = Inr r \<and>
       r \<in> {''Neithal'', ''Kurinji'', ''Paalai'', ''Mullai'', ''Marudham''}"
proof (intro exI conjI)
  show "applyClassificationRules e c p =
     Inr (if neithalCheck e c p then ''Neithal''
          else if kurinjiCheck e c p then ''Kurinji''
          else if paalaiCheck e c p then ''Paalai''
          else if mullaiCheck e c p then ''Mullai''
          else if marudhamCheck e c p then ''Marudham''
          else getBestFitRegion e c p)"
    by (rule apply_cascade)
  show "(if neithalCheck e c p then ''Neithal''
         else if kurinjiCheck e c p then ''Kurinji''
         else if paalaiCheck e c p then ''Paalai''
         else if mullaiCheck e c p then ''Mullai''
         else if marudhamCheck e c p then ''Marudham''
         else getBestFitRegion e c p)
        \<in> {''Neithal'', ''Kurinji'', ''Paalai'', ''Mullai'', ''Marudham''}"
    using best_fit_in_five [of e c p] by simp
qed

lemma apply_nan: "applyClassificationRules NaN NaN NaN = Inr ''Marudham''"
  by (simp add: apply_cascade_thresholds best_fit_thresholds js_cmp_defs)

subsection \<open>The strict tier\<close>

text \<open>
  Claim C1. For every triple of Numbers, \<open>applyClassificationRules\<close> returns the category
  of the first of the five strict checks that holds, tried in the order Neithal,
  Kurinji, Paalai, Mullai, Marudham, each check being the predicate of the priority
  table with the thresholds 50, 200, 1000 and 250; when none holds, the result is the one
  of the fallback tier.
\<close>

theorem strict_tier_priority:
  "applyClassificationRules e c p =
     Inr (if js_le c (Fin 50) \<and> js_lt e (Fin 200) then ''Neithal''
          else if js_ge e (Fin 1000) \<and> js_gt c (Fin 50) then ''Kurinji''
          else if js_lt p (Fin 250) \<and> js_lt e (Fin 1000) \<and> js_gt c (Fin 50) then ''Paalai''
          else if js_ge e (Fin 200) \<and> js_lt e (Fin 1000) \<and> js_ge p (Fin 250) \<and> js_gt c (Fin 50)
          then ''Mullai''
          else if js_lt e (Fin 200) \<and> js_ge p (Fin 250) \<and> js_gt c (Fin 50) then ''Marudham''
          else getBestFitRegion e c p)"
  by (rule apply_cascade_thresholds)

subsection \<open>The fallback tier\<close>

text \<open>
  Claim C2. When none of the five strict predicates holds of the triple, the result is
  that of the fallback tier, tried in this order: Neithal if the coast distance is at
  most \<open>50 * 1.5\<close>; else Kurinji if the elevation is at least \<open>1000 * 0.8\<close>; else Paalai
  if the precipitation is below \<open>250 * 1.2\<close>; else Mullai if the elevation is at least
  \<open>200 * 0.8\<close> and below 1000; else Marudham.
\<close>

theorem fallback_tier_order:
  assumes "\<not> (js_le c (Fin 50) \<and> js_lt e (Fin 200))"
      and "\<not> (js_ge e (Fin 1000) \<and> js_gt c (Fin 50))"
      and "\<not> (js_lt p (Fin 250) \<and> js_lt e (Fin 1000) \<and> js_gt c (Fin 50))"
      and "\<not> (js_ge e (Fin 200) \<and> js_lt e (Fin 1000) \<and> js_ge p (Fin 250) \<and> js_gt c (Fin 50))"
      and "\<not> (js_lt e (Fin 200) \<and> js_ge p (Fin 250) \<and> js_gt c (Fin 50))"
  shows "applyClassificationRules e c p =
     Inr (if js_le c (Fin (50 * 1.5)) then ''Neithal''
          else if js_ge e (Fin (1000 * 0.8)) then ''Kurinji''
          else if js_lt p (Fin (250 * 1.2)) then ''Paalai''
          else if js_ge e (Fin (200 * 0.8)) \<and> js_lt e (Fin 1000) then ''Mullai''
          else ''Marudham'')"
proof -
  have "applyClassificationRules e c p = Inr (getBestFitRegion e c p)"
    unfolding apply_cascade_thresholds using assms by (simp only: if_False)
  then show ?thesis by (simp only: best_fit_thresholds)
qed

text \<open>
  The theorem at a hill 500 m high, 40 km from the coast, with 300 mm of rain: no strict
  check holds, and the first fallback test makes it Neithal.
\<close>

theorem fallback_tier_order_witness:
  "\<not> (js_le (Fin 40) (Fin 50) \<and> js_lt (Fin 500) (Fin 200)) \<and>
   \<not> (js_ge (Fin 500) (Fin 1000) \<and> js_gt (Fin 40) (Fin 50)) \<and>
   \<not> (js_lt (Fin 300) (Fin 250) \<and> js_lt (Fin 500) (Fin 1000) \<and> js_gt (Fin 40) (Fin 50)) \<and>
   \<not> (js_ge (Fin 500) (Fin 200) \<and> js_lt (Fin 500) (Fin 1000) \<and> js_ge (Fin 300) (Fin 250) \<and>
      js_gt (Fin 40) (Fin 50)) \<and>
   \<not> (js_lt (Fin 500) (Fin 200) \<and> js_ge (Fin 300) (Fin 250) \<and> js_gt (Fin 40) (Fin 50)) \<and>
   applyClassificationRules (Fin 500) (Fin 40) (Fin 300) = Inr ''Neithal''"
proof -
  have h1: "\<not> (js_le (Fin 40) (Fin 50) \<and> js_lt (Fin 500) (Fin 200))" by simp
  have h2: "\<not> (js_ge (Fin 500) (Fin 1000) \<and> js_gt (Fin 40) (Fin 50))" by simp
  have h3: "\<not> (js_lt (Fin 300) (Fin 250) \<and> js_lt (Fin 500) (Fin 1000) \<and> js_gt (Fin 40) (Fin 50))"
    by simp
  have h4: "\<not> (js_ge (Fin 500) (Fin 200) \<and> js_lt (Fin 500) (Fin 1000) \<and>
      js_ge (Fin 300) (Fin 250) \<and> js_gt (Fin 40) (Fin 50))"
    by simp
  have h5: "\<not> (js_lt (Fin 500) (Fin 200) \<and> js_ge (Fin 300) (Fin 250) \<and> js_gt (Fin 40) (Fin 50))"
    by simp
  have "applyClassificationRules (Fin 500) (Fin 40) (Fin 300) = Inr ''Neithal''"
    using fallback_tier_order [OF h1 h2 h3 h4 h5] by simp
  with h1 h2 h3 h4 h5 show ?thesis by blast
qed

subsection \<open>Totality\<close>

text \<open>
  Claim C3. For every finite elevation, every coast distance that is not negative and
  every precipitation that is not negative, \<open>applyClassificationRules\<close> returns one of
  the five region names, and so does the fallback tier, whose last branch is the
  unconditional Marudham.
\<close>

theorem classification_total:
  "0 \<le> c \<Longrightarrow> 0 \<le> p \<Longrightarrow>
   applyClassificationRules (Fin e) (Fin c) (Fin p) \<in>
     {Inr ''Neithal'', Inr ''Kurinji'', Inr ''Paalai'', Inr ''Mullai'', Inr ''Marudham''} \<and>
   getBestFitRegion (Fin e) (Fin c) (Fin p) \<in>
     {''Neithal'', ''Kurinji'', ''Paalai'', ''Mullai'', ''Marudham''}"
  using apply_in_five [of "Fin e" "Fin c" "Fin p"] best_fit_in_five [of "Fin e" "Fin c" "Fin p"]
  by auto

theorem classification_total_witness:
  "(0 :: real) \<le> 600 \<and> (0 :: real) \<le> 900 \<and>
   applyClassificationRules (Fin 100) (Fin 600) (Fin 900) \<in>
     {Inr ''Neithal'', Inr ''Kurinji'', Inr ''Paalai'', Inr ''Mullai'', Inr ''Marudham''} \<and>
   getBestFitRegion (Fin 100) (Fin 600) (Fin 900) \<in>
     {''Neithal'', ''Kurinji'', ''Paalai'', ''Mullai'', ''Marudham''}"
proof -
  have h1: "(0 :: real) \<le> 600" and h2: "(0 :: real) \<le> 900" by simp_all
  from classification_total [OF h1 h2, of 100] h1 h2 show ?thesis by blast
qed

subsection \<open>The coastal boundary\<close>

text \<open>
  Claim C6. With an elevation of 199 and any precipitation that is not negative, a coast
  distance of exactly 50 gives Neithal, and a coast distance of 50.0001 does not: that
  sample falls through to the later rules (Paalai below 250 mm, Marudham otherwise).
\<close>

theorem coastal_boundary_exact:
  "0 \<le> p \<Longrightarrow>
   applyClassificationRules (Fin 199) (Fin 50) (Fin p) = Inr ''Neithal'' \<and>
   applyClassificationRules (Fin 199) (Fin 50.0001) (Fin p) \<noteq> Inr ''Neithal'' \<and>
   applyClassificationRules (Fin 199) (Fin 50.0001) (Fin p) =
     Inr (if p < 250 then ''Paalai'' else ''Marudham'')"
  by (simp add: apply_cascade_thresholds)

theorem coastal_boundary_exact_witness:
  "(0 :: real) \<le> 300 \<and>
   applyClassificationRules (Fin 199) (Fin 50) (Fin 300) = Inr ''Neithal'' \<and>
   applyClassificationRules (Fin 199) (Fin 50.0001) (Fin 300) = Inr ''Marudham''"
proof -
  have h: "(0 :: real) \<le> 300" by simp
  from coastal_boundary_exact [OF h] h show ?thesis by simp
qed

subsection \<open>Neithal and Kurinji exclude each other\<close>

text \<open>
  Claim C7. No triple satisfies both the Neithal check (coast distance at most 50 and
  elevation below 200) and the Kurinji check (elevation at least 1000 and coast distance
  above 50).
\<close>

theorem neithal_kurinji_exclusive:
  "neithalCheck e c p = (js_le c (Fin 50) \<and> js_lt e (Fin 200)) \<and>
   kurinjiCheck e c p = (js_ge e (Fin 1000) \<and> js_gt c (Fin 50)) \<and>
   \<not> (neithalCheck e c p \<and> kurinjiCheck e c p)"
proof (intro conjI)
  show "\<not> (neithalCheck e c p \<and> kurinjiCheck e c p)"
    unfolding neithalCheck_iff kurinjiCheck_iff
    by (cases c; cases e) (simp_all add: js_cmp_defs)
qed (rule neithalCheck_iff kurinjiCheck_iff)+

subsection \<open>The two copies agree\<close>

text \<open>
  Claim C9. The instrumented copy of the classifier and the copy without logging return
  the same category for every triple, and so do their fallback tiers.
\<close>

theorem copies_agree:
  "applyClassificationRules e c p = Inr (applyClassificationRules_clean e c p) \<and>
   getBestFitRegion e c p = getBestFitRegion_clean e c p"
  by (simp only: apply_cascade clean_cascade best_fit_clean)

subsection \<open>Numbers that are not finite\<close>

text \<open>
  Claim C10. \<open>applyClassificationRules\<close> raises for no triple of Numbers, \<open>NaN\<close> and the
  infinities included: it always returns one of the five names. On three \<open>NaN\<close>s every
  comparison is false and the result is Marudham.
\<close>

theorem never_raises_nan_is_marudham:
  "(\<exists>r. applyClassificationRules e c p = Inr r \<and>
        r \<in> {''Neithal'', ''Kurinji'', ''Paalai'', ''Mullai'', ''Marudham''}) \<and>
   applyClassificationRules NaN NaN NaN = Inr ''Marudham'' \<and>
   \<not> js_lt NaN x \<and> \<not> js_le NaN x \<and> \<not> js_gt NaN x \<and> \<not> js_ge NaN x"
  by (intro conjI apply_in_five apply_nan) (simp_all add: nan_cmp)

section \<open>Properties of the explanations\<close>

lemma td_sel [simp]:
  "elevation (terrainData_of e c p) = e" "coastDistance (terrainData_of e c p) = c"
  "precipitation (terrainData_of e c p) = p"
  by (simp_all add: terrainData_of_def)

lemma Number_toString_50: "Number_toString (Fin 50) = ''50''"
  by (simp add: Number_toString_def nat_digits.simps digit_char_def)

text \<open>\<open>formatElevation\<close> never raises: its digit count is \<open>2\<close>.\<close>

lemma formatElevation_ok: "\<exists>el. formatElevation x = Inr el"
  by (simp add: formatElevation_def toFixed_def)

lemma formatElevation_500: "formatElevation (Fin 500) = Inr ''500 m''"
  by (simp add: formatElevation_def Math_round_def Number_toString_def nat_digits.simps
        digit_char_def)

lemma formatElevation_100: "formatElevation (Fin 100) = Inr ''100 m''"
  by (simp add: formatElevation_def Math_round_def Number_toString_def nat_digits.simps
        digit_char_def)

subsection \<open>The reasons of each region\<close>

lemma explain_Neithal:
  "formatElevation (elevation td) = Inr el \<Longrightarrow>
   getClassificationExplanation ''Neithal'' td =
     Inr [''Within 50km of the coast'', ''Low elevation ('' @ el @ '')'']"
  by (simp add: getClassificationExplanation_def THRESHOLDS_def Number_toString_50)

lemma explain_Kurinji:
  "formatElevation (elevation td) = Inr el \<Longrightarrow>
   getClassificationExplanation ''Kurinji'' td =
     Inr [''High elevation ('' @ el @ '')'', ''Mountainous terrain'']"
  by (simp add: getClassificationExplanation_def)

lemma explain_Paalai:
  "getClassificationExplanation ''Paalai'' td =
     Inr [''Low annual rainfall ('' @ formatPrecipitation (precipitation td) @ '')'',
          ''Arid conditions'']"
  by (simp add: getClassificationExplanation_def)

lemma explain_Mullai:
  "formatElevation (elevation td) = Inr el \<Longrightarrow>
   getClassificationExplanation ''Mullai'' td =
     Inr [''Mid-altitude elevation ('' @ el @ '')'', ''Adequate rainfall for vegetation'',
          ''Inland location'']"
  by (simp add: getClassificationExplanation_def)

lemma explain_Marudham:
  "formatElevation (elevation td) = Inr el \<Longrightarrow>
   getClassificationExplanation ''Marudham'' td =
     Inr [''Low elevation ('' @ el @ '')'', ''Adequate rainfall for agriculture'',
          ''Fertile plains'']"
  by (simp add: getClassificationExplanation_def)

subsection \<open>When the reasons hold\<close>

lemma holds_Neithal:
  assumes "js_le (coastDistance td) (Fin 50)" and "js_lt (elevation td) (Fin 200)"
  shows "\<exists>reasons. getClassificationExplanation ''Neithal'' td = Inr reasons \<and>
           (\<forall>x\<in>set reasons. stated_condition x td)"
proof -
  obtain el where "formatElevation (elevation td) = Inr el"
    using formatElevation_ok by blast
  then show ?thesis
    using assms by (simp add: explain_Neithal stated_condition_def)
qed

lemma holds_Kurinji:
  assumes "js_ge (elevation td) (Fin 1000)"
  shows "\<exists>reasons. getClassificationExplanation ''Kurinji'' td = Inr reasons \<and>
           (\<forall>x\<in>set reasons. stated_condition x td)"
proof -
  obtain el where "formatElevation (elevation td) = Inr el"
    using formatElevation_ok by blast
  then show ?thesis
    using assms by (simp add: explain_Kurinji stated_condition_def)
qed

lemma holds_Paalai:
  assumes "js_lt (precipitation td) (Fin 250)"
  shows "\<exists>reasons. getClassificationExplanation ''Paalai'' td = Inr reasons \<and>
           (\<forall>x\<in>set reasons. stated_condition x td)"
  using assms by (simp add: explain_Paalai stated_condition_def)

lemma holds_Mullai:
  assumes "js_ge (elevation td) (Fin 200)" and "js_lt (elevation td) (Fin 1000)"
      and "js_ge (precipitation td) (Fin 250)" and "js_gt (coastDistance td) (Fin 50)"
  shows "\<exists>reasons. getClassificationExplanation ''Mullai'' td = Inr reasons \<and>
           (\<forall>x\<in>set reasons. stated_condition x td)"
proof -
  obtain el where "formatElevation (elevation td) = Inr el"
    using formatElevation_ok by blast
  then show ?thesis
    using assms by (simp add: explain_Mullai stated_condition_def)
qed

lemma holds_Marudham:
  assumes "js_lt (elevation td) (Fin 200)" and "js_ge (precipitation td) (Fin 250)"
  shows "\<exists>reasons. getClassificationExplanation ''Marudham'' td = Inr reasons \<and>
           (\<forall>x\<in>set reasons. stated_condition x td)"
proof -
  obtain el where "formatElevation (elevation td) = Inr el"
    using formatElevation_ok by blast
  then show ?thesis
    using assms by (simp add: explain_Marudham stated_condition_def)
qed

lemma fallback_Neithal_reasons:
  assumes "js_le (coastDistance td) (Fin 50)" and "\<not> js_lt (elevation td) (Fin 200)"
  shows "\<exists>reasons. getClassificationExplanation ''Neithal'' td = Inr reasons \<and>
           (\<forall>x\<in>set reasons. stated_condition x td = (\<not> prefix ''Low elevation'' x)) \<and>
           (\<exists>x\<in>set reasons. prefix ''Low elevation'' x)"
proof -
  obtain el where "formatElevation (elevation td) = Inr el"
    using formatElevation_ok by blast
  then show ?thesis
    using assms by (simp add: explain_Neithal stated_condition_def)
qed

text \<open>
  On finite inputs the five strict checks leave one gap: a coast distance of at most 50
  with an elevation of at least 200.
\<close>

lemma finite_no_strict_match:
  fixes e c p :: real
  assumes "\<not> (neithalCheck (Fin e) (Fin c) (Fin p) \<or> kurinjiCheck (Fin e) (Fin c) (Fin p) \<or>
              paalaiCheck (Fin e) (Fin c) (Fin p) \<or> mullaiCheck (Fin e) (Fin c) (Fin p) \<or>
              marudhamCheck (Fin e) (Fin c) (Fin p))"
  shows "c \<le> 50 \<and> 200 \<le> e"
  using assms unfolding check_iffs fin_cmp by linarith

text \<open>
  Claim C4, as the code has it. For every finite sample, the reasons that
  \<open>getClassificationExplanation\<close> gives for the category \<open>applyClassificationRules\<close>
  returned state conditions that hold of the sample whenever one of the strict checks
  matched. When none matched, the fallback tier returns Neithal, the coast distance is
  at most 50 and the elevation is at least 200: every reason but "Low elevation" holds,
  and "Low elevation" is given and does not hold.
\<close>

theorem explanation_consistent_with_strict_tier:
  fixes e c p :: real
  shows "\<exists>r reasons.
           applyClassificationRules (Fin e) (Fin c) (Fin p) = Inr r \<and>
           getClassificationExplanation r (terrainData_of (Fin e) (Fin c) (Fin p)) = Inr reasons \<and>
           (if neithalCheck (Fin e) (Fin c) (Fin p) \<or> kurinjiCheck (Fin e) (Fin c) (Fin p) \<or>
               paalaiCheck (Fin e) (Fin c) (Fin p) \<or> mullaiCheck (Fin e) (Fin c) (Fin p) \<or>
               marudhamCheck (Fin e) (Fin c) (Fin p)
            then \<forall>x\<in>set reasons. stated_condition x (terrainData_of (Fin e) (Fin c) (Fin p))
            else r = ''Neithal'' \<and> c \<le> 50 \<and> 200 \<le> e \<and>
                 (\<forall>x\<in>set reasons.
                    stated_condition x (terrainData_of (Fin e) (Fin c) (Fin p)) =
                      (\<not> prefix ''Low elevation'' x)) \<and>
                 (\<exists>x\<in>set reasons. prefix ''Low elevation'' x))"
proof -
  let ?td = "terrainData_of (Fin e) (Fin c) (Fin p)"
  let ?A = "applyClassificationRules (Fin e) (Fin c) (Fin p)"
  consider (n) "neithalCheck (Fin e) (Fin c) (Fin p)"
    | (k) "\<not> neithalCheck (Fin e) (Fin c) (Fin p)" "kurinjiCheck (Fin e) (Fin c) (Fin p)"
    | (pa) "\<not> neithalCheck (Fin e) (Fin c) (Fin p)" "\<not> kurinjiCheck (Fin e) (Fin c) (Fin p)"
           "paalaiCheck (Fin e) (Fin c) (Fin p)"
    | (mu) "\<not> neithalCheck (Fin e) (Fin c) (Fin p)" "\<not> kurinjiCheck (Fin e) (Fin c) (Fin p)"
           "\<not> paalaiCheck (Fin e) (Fin c) (Fin p)" "mullaiCheck (Fin e) (Fin c) (Fin p)"
    | (ma) "\<not> neithalCheck (Fin e) (Fin c) (Fin p)" "\<not> kurinjiCheck (Fin e) (Fin c) (Fin p)"
           "\<not> paalaiCheck (Fin e) (Fin c) (Fin p)" "\<not> mullaiCheck (Fin e) (Fin c) (Fin p)"
           "marudhamCheck (Fin e) (Fin c) (Fin p)"
    | (fb) "\<not> (neithalCheck (Fin e) (Fin c) (Fin p) \<or> kurinjiCheck (Fin e) (Fin c) (Fin p) \<or>
              paalaiCheck (Fin e) (Fin c) (Fin p) \<or> mullaiCheck (Fin e) (Fin c) (Fin p) \<or>
              marudhamCheck (Fin e) (Fin c) (Fin p))"
    by blast
  then show ?thesis
  proof cases
    case n
    then have r: "?A = Inr ''Neithal''" by (simp add: apply_cascade)
    from n have "js_le (coastDistance ?td) (Fin 50)" "js_lt (elevation ?td) (Fin 200)"
      by (simp_all add: neithalCheck_iff)
    from holds_Neithal [OF this] r n show ?thesis by auto
  next
    case k
    then have r: "?A = Inr ''Kurinji''" by (simp add: apply_cascade)
    from k have "js_ge (elevation ?td) (Fin 1000)" by (simp add: kurinjiCheck_iff)
    from holds_Kurinji [OF this] r k show ?thesis by auto
  next
    case pa
    then have r: "?A = Inr ''Paalai''" by (simp add: apply_cascade)
    from pa have "js_lt (precipitation ?td) (Fin 250)" by (simp add: paalaiCheck_iff)
    from holds_Paalai [OF this] r pa show ?thesis by auto
  next
    case mu
    then have r: "?A = Inr ''Mullai''" by (simp add: apply_cascade)
    from mu have "js_ge (elevation ?td) (Fin 200)" "js_lt (elevation ?td) (Fin 1000)"
        "js_ge (precipitation ?td) (Fin 250)" "js_gt (coastDistance ?td) (Fin 50)"
      by (simp_all add: mullaiCheck_iff)
    from holds_Mullai [OF this] r mu show ?thesis by auto
  next
    case ma
    then have r: "?A = Inr ''Marudham''" by (simp add: apply_cascade)
    from ma have "js_lt (elevation ?td) (Fin 200)" "js_ge (precipitation ?td) (Fin 250)"
      by (simp_all add: marudhamCheck_iff)
    from holds_Marudham [OF this] r ma show ?thesis by auto
  next
    case fb
    from finite_no_strict_match [OF fb] have ce: "c \<le> 50" "200 \<le> e" by simp_all
    from fb have "?A = Inr (getBestFitRegion (Fin e) (Fin c) (Fin p))"
      by (simp add: apply_cascade)
    with ce have r: "?A = Inr ''Neithal''" by (simp add: best_fit_thresholds)
    from ce have "js_le (coastDistance ?td) (Fin 50)" "\<not> js_lt (elevation ?td) (Fin 200)"
      by simp_all
    from fallback_Neithal_reasons [OF this] r fb ce show ?thesis by auto
  qed
qed

text \<open>
  The theorem at a plain 100 m high, 10 km from the coast, with 900 mm of rain: the
  Neithal check matches and both reasons hold.
\<close>

theorem explanation_consistent_with_strict_tier_witness:
  "neithalCheck (Fin 100) (Fin 10) (Fin 900) \<and>
   applyClassificationRules (Fin 100) (Fin 10) (Fin 900) = Inr ''Neithal'' \<and>
   getClassificationExplanation ''Neithal'' (terrainData_of (Fin 100) (Fin 10) (Fin 900)) =
     Inr [''Within 50km of the coast'', ''Low elevation (100 m)''] \<and>
   stated_condition ''Within 50km of the coast'' (terrainData_of (Fin 100) (Fin 10) (Fin 900)) \<and>
   stated_condition ''Low elevation (100 m)'' (terrainData_of (Fin 100) (Fin 10) (Fin 900))"
proof -
  let ?td = "terrainData_of (Fin 100) (Fin 10) (Fin 900)"
  have n: "neithalCheck (Fin 100) (Fin 10) (Fin 900)" by (simp add: neithalCheck_iff)
  have r: "applyClassificationRules (Fin 100) (Fin 10) (Fin 900) = Inr ''Neithal''"
    using n by (simp add: apply_cascade)
  have el: "formatElevation (elevation ?td) = Inr ''100 m''"
    by (simp add: formatElevation_100)
  have ex: "getClassificationExplanation ''Neithal'' ?td =
      Inr [''Within 50km of the coast'', ''Low elevation (100 m)'']"
    using explain_Neithal [OF el] by simp
  from explanation_consistent_with_strict_tier [of 100 10 900] n r ex
  have "\<forall>x\<in>set [''Within 50km of the coast'', ''Low elevation (100 m)'']. stated_condition x ?td"
    by auto
  then have "stated_condition ''Within 50km of the coast'' ?td"
    and "stated_condition ''Low elevation (100 m)'' ?td"
    by simp_all
  with n r ex show ?thesis by blast
qed

text \<open>
  Against claim C4 as the specification words it: a hill 500 m high, 40 km from the
  coast, with 300 mm of rain is Neithal by the fallback tier, and its explanation says
  "Low elevation (500 m)", which is not true of an elevation of 500.
\<close>

theorem fallback_neithal_low_elevation_counterexample:
  "applyClassificationRules (Fin 500) (Fin 40) (Fin 300) = Inr ''Neithal'' \<and>
   getClassificationExplanation ''Neithal'' (terrainData_of (Fin 500) (Fin 40) (Fin 300)) =
     Inr [''Within 50km of the coast'', ''Low elevation (500 m)''] \<and>
   \<not> stated_condition ''Low elevation (500 m)'' (terrainData_of (Fin 500) (Fin 40) (Fin 300)) \<and>
   \<not> (500 :: real) < 200"
proof (intro conjI)
  show "applyClassificationRules (Fin 500) (Fin 40) (Fin 300) = Inr ''Neithal''"
    by (simp add: apply_cascade_thresholds best_fit_thresholds)
  have el: "formatElevation (elevation (terrainData_of (Fin 500) (Fin 40) (Fin 300))) = Inr ''500 m''"
    by (simp add: formatElevation_500)
  show "getClassificationExplanation ''Neithal'' (terrainData_of (Fin 500) (Fin 40) (Fin 300)) =
     Inr [''Within 50km of the coast'', ''Low elevation (500 m)'']"
    using explain_Neithal [OF el] by simp
  show "\<not> stated_condition ''Low elevation (500 m)'' (terrainData_of (Fin 500) (Fin 40) (Fin 300))"
    by (simp add: stated_condition_def)
  show "\<not> (500 :: real) < 200" by simp
qed

section \<open>Properties of the coast distance estimator\<close>

subsection \<open>Rounding to a double\<close>

text \<open>
  The exponent of a number of the normal range is the one its binade gives, which lets
  a rounding be computed without the search of \<open>exponent\<close>.
\<close>

lemma pow2_pos: "0 < pow2 e"
  by (simp add: pow2_def)

lemma pow2_succ: "pow2 (e + 1) = 2 * pow2 e"
proof (cases "0 \<le> e")
  case True
  then have "nat (e + 1) = Suc (nat e)" by simp
  with True show ?thesis by (simp add: pow2_def)
next
  case False
  then have "nat (- e) = Suc (nat (- (e + 1)))" by simp
  with False show ?thesis by (simp add: pow2_def)
qed

lemma pow2_add_nat: "pow2 (e + int k) = 2 ^ k * pow2 e"
proof (induction k)
  case 0
  then show ?case by simp
next
  case (Suc k)
  have "e + int (Suc k) = (e + int k) + 1" by simp
  then have "pow2 (e + int (Suc k)) = pow2 ((e + int k) + 1)" by (rule arg_cong)
  also have "\<dots> = 2 * pow2 (e + int k)" by (rule pow2_succ)
  finally show ?case by (simp add: Suc.IH)
qed

lemma pow2_mono: "a \<le> b \<Longrightarrow> pow2 a \<le> pow2 b"
proof -
  assume "a \<le> b"
  then have "b = a + int (nat (b - a))" by simp
  then have "pow2 b = 2 ^ nat (b - a) * pow2 a" by (metis pow2_add_nat)
  moreover have "(1 :: real) \<le> 2 ^ nat (b - a)" by simp
  ultimately show ?thesis using pow2_pos [of a] by (simp add: mult_le_cancel_right1)
qed

lemma binade_from_eq:
  assumes "pow2 e \<le> \<bar>x\<bar>" and "\<bar>x\<bar> < pow2 (e + 1)" and "e \<le> s" and "s - int n \<le> e"
  shows "binade_from n s x = e"
  using assms(3,4)
proof (induction n arbitrary: s)
  case 0
  then show ?case by simp
next
  case (Suc n)
  show ?case
  proof (cases "pow2 s \<le> \<bar>x\<bar>")
    case True
    have "\<not> e < s"
    proof
      assume "e < s"
      then have "pow2 (e + 1) \<le> pow2 s" by (intro pow2_mono) simp
      with True assms(2) show False by simp
    qed
    with Suc.prems have "s = e" by simp
    with True show ?thesis by simp
  next
    case False
    with assms(1) have "s \<noteq> e" by auto
    with Suc.prems have "e \<le> s - 1" "s - 1 - int n \<le> e" by simp_all
    from Suc.IH [OF this] False show ?thesis by simp
  qed
qed

lemma exponent_eqI:
  assumes "pow2 e \<le> \<bar>x\<bar>" and "\<bar>x\<bar> < pow2 (e + 1)" and "- 1022 \<le> e" and "e \<le> 1023"
  shows "exponent x = e"
  unfolding exponent_def using assms by (intro binade_from_eq) simp_all

lemmas fl_eval = fl_def round_half_even_def pow2_def Let_def

subsection \<open>A rounded quotient in the elevation text\<close>

text \<open>
  \<open>formatElevation\<close> divides by 1000 in doubles: 1005 m is 1.00499999999999989 km and
  prints as "1.00 km".
\<close>

lemma quotient_1005: "js_over (Fin 1005) 1000 = Fin (1131529406376837 / 1125899906842624)"
  by (simp add: js_over_def fl_eval exponent_eqI [where e = 0])

lemma digits_1005: "fixed_digits 2 (1131529406376837 / 1125899906842624) = ''1.00''"
  by code_simp

lemma formatElevation_1005: "formatElevation (Fin 1005) = Inr ''1.00 km''"
  by (simp add: formatElevation_def quotient_1005 toFixed_def digits_1005)

subsection \<open>The distance between (-8, -112) and (8, 68)\<close>

text \<open>
  The point (8, 68) is the first one the west coast loop of
  \<open>getCoastalReferencePoints\<close> pushes, and (-8, -112) is its antipode. Step by step, as
  \<open>haversineDistance\<close> computes it from the first to the second: \<open>Math.PI / 180\<close> is
  0.017453292519943295, \<open>dLat\<close> is 0.2792526803190927 and \<open>dLon\<close> is
  3.141592653589793; the square of the sine of \<open>dLat / 2\<close> is 0.019369152030840567,
  the product of the cosines is 0.9806308479691596 and the sine of \<open>dLon / 2\<close> is 1;
  their sum rounds to 1.0000000000000002, and \<open>1 - a\<close> is -2.220446049250313e-16.
\<close>

lemma radians_per_degree:
  "js_over (Fin Math_PI) 180 = Fin (5030569068109113 / 2 ^ 58)"
  by (simp add: js_over_def Math_PI_def fl_eval exponent_eqI [where e = "- 6"])

lemma toRadians_Fin: "toRadians (Fin x) = fl (x * (5030569068109113 / 2 ^ 58))"
  by (simp add: toRadians_def radians_per_degree js_mul_def)

lemma toRadians_8: "toRadians (Fin 8) = Fin (5030569068109113 / 2 ^ 55)"
  unfolding toRadians_Fin by (simp add: fl_eval exponent_eqI [where e = "- 3"])

lemma toRadians_m8: "toRadians (Fin (- 8)) = Fin (- (5030569068109113 / 2 ^ 55))"
  unfolding toRadians_Fin by (simp add: fl_eval exponent_eqI [where e = "- 3"])

lemma toRadians_16: "toRadians (Fin 16) = Fin (5030569068109113 / 2 ^ 54)"
  unfolding toRadians_Fin by (simp add: fl_eval exponent_eqI [where e = "- 2"])

lemma toRadians_180: "toRadians (Fin 180) = Fin (7074237752028440 / 2 ^ 51)"
  unfolding toRadians_Fin by (simp add: fl_eval exponent_eqI [where e = 1])

lemma diff_lat: "js_sub (Fin 8) (Fin (- 8)) = Fin 16"
  by (simp add: js_sub_def fl_eval exponent_eqI [where e = 4])

lemma diff_lon: "js_sub (Fin 68) (Fin (- 112)) = Fin 180"
  by (simp add: js_sub_def fl_eval exponent_eqI [where e = 7])

lemma half_dLat: "js_over (Fin (5030569068109113 / 2 ^ 54)) 2 = Fin (5030569068109113 / 2 ^ 55)"
  by (simp add: js_over_def fl_eval exponent_eqI [where e = "- 3"])

lemma half_dLon: "js_over (Fin (7074237752028440 / 2 ^ 51)) 2 = Fin (7074237752028440 / 2 ^ 52)"
  by (simp add: js_over_def fl_eval exponent_eqI [where e = 0])

lemma sin_half_dLat:
  "Math_sin rounded_math (Fin (5030569068109113 / 2 ^ 55)) = Fin (5014239404989977 / 2 ^ 55)"
  by (simp add: Math_sin_def rounded_math_def)

lemma sin_half_dLon: "Math_sin rounded_math (Fin (7074237752028440 / 2 ^ 52)) = Fin 1"
  by (simp add: Math_sin_def rounded_math_def)

lemma cos_lat:
  "Math_cos rounded_math (Fin (5030569068109113 / 2 ^ 55)) = Fin (8919541810762874 / 2 ^ 53)"
  "Math_cos rounded_math (Fin (- (5030569068109113 / 2 ^ 55))) = Fin (8919541810762874 / 2 ^ 53)"
  by (simp_all add: Math_cos_def rounded_math_def)

lemma sin_squared:
  "js_mul (Fin (5014239404989977 / 2 ^ 55)) (Fin (5014239404989977 / 2 ^ 55)) =
     Fin (5582777975588868 / 2 ^ 58)"
  by (simp add: js_mul_def fl_eval exponent_eqI [where e = "- 6"])

lemma cos_squared:
  "js_mul (Fin (8919541810762874 / 2 ^ 53)) (Fin (8919541810762874 / 2 ^ 53)) =
     Fin (8832737443003841 / 2 ^ 53)"
  by (simp add: js_mul_def fl_eval exponent_eqI [where e = "- 1"])

lemma times_one: "js_mul (Fin (8832737443003841 / 2 ^ 53)) (Fin 1) = Fin (8832737443003841 / 2 ^ 53)"
  by (simp add: js_mul_def fl_eval exponent_eqI [where e = "- 1"])

lemma sum_above_one:
  "js_add (Fin (5582777975588868 / 2 ^ 58)) (Fin (8832737443003841 / 2 ^ 53)) =
     Fin (4503599627370497 / 2 ^ 52)"
  by (simp add: js_add_def fl_eval exponent_eqI [where e = 0])

lemma one_minus_a: "js_sub (Fin 1) (Fin (4503599627370497 / 2 ^ 52)) = Fin (- (1 / 2 ^ 52))"
  by (simp add: js_sub_def fl_eval exponent_eqI [where e = "- 52"])

lemma a_at_antipode:
  "haversine_a rounded_math (Fin (- 8)) (Fin (- 112)) (Fin 8) (Fin 68) =
     Fin (4503599627370497 / 2 ^ 52)"
  by (simp only: haversine_a_def Let_def diff_lat diff_lon toRadians_16 toRadians_180
        toRadians_8 toRadians_m8 half_dLat half_dLon sin_half_dLat sin_half_dLon cos_lat
        sin_squared cos_squared times_one sum_above_one)

text \<open>The same from the second point to the first.\<close>

lemma toRadians_m16: "toRadians (Fin (- 16)) = Fin (- (5030569068109113 / 2 ^ 54))"
  unfolding toRadians_Fin by (simp add: fl_eval exponent_eqI [where e = "- 2"])

lemma toRadians_m180: "toRadians (Fin (- 180)) = Fin (- (7074237752028440 / 2 ^ 51))"
  unfolding toRadians_Fin by (simp add: fl_eval exponent_eqI [where e = 1])

lemma diff_lat_back: "js_sub (Fin (- 8)) (Fin 8) = Fin (- 16)"
  by (simp add: js_sub_def fl_eval exponent_eqI [where e = 4])

lemma diff_lon_back: "js_sub (Fin (- 112)) (Fin 68) = Fin (- 180)"
  by (simp add: js_sub_def fl_eval exponent_eqI [where e = 7])

lemma half_dLat_back:
  "js_over (Fin (- (5030569068109113 / 2 ^ 54))) 2 = Fin (- (5030569068109113 / 2 ^ 55))"
  by (simp add: js_over_def fl_eval exponent_eqI [where e = "- 3"])

lemma half_dLon_back:
  "js_over (Fin (- (7074237752028440 / 2 ^ 51))) 2 = Fin (- (7074237752028440 / 2 ^ 52))"
  by (simp add: js_over_def fl_eval exponent_eqI [where e = 0])

lemma sin_half_dLat_back:
  "Math_sin rounded_math (Fin (- (5030569068109113 / 2 ^ 55))) = Fin (- (5014239404989977 / 2 ^ 55))"
  by (simp add: Math_sin_def rounded_math_def)

lemma sin_half_dLon_back: "Math_sin rounded_math (Fin (- (7074237752028440 / 2 ^ 52))) = Fin (- 1)"
  by (simp add: Math_sin_def rounded_math_def)

lemma sin_squared_back:
  "js_mul (Fin (- (5014239404989977 / 2 ^ 55))) (Fin (- (5014239404989977 / 2 ^ 55))) =
     Fin (5582777975588868 / 2 ^ 58)"
  by (simp add: js_mul_def fl_eval exponent_eqI [where e = "- 6"])

lemma times_minus_one:
  "js_mul (Fin (8832737443003841 / 2 ^ 53)) (Fin (- 1)) = Fin (- (8832737443003841 / 2 ^ 53))"
  "js_mul (Fin (- (8832737443003841 / 2 ^ 53))) (Fin (- 1)) = Fin (8832737443003841 / 2 ^ 53)"
  by (simp_all add: js_mul_def fl_eval exponent_eqI [where e = "- 1"])

lemma a_at_antipode_back:
  "haversine_a rounded_math (Fin 8) (Fin 68) (Fin (- 8)) (Fin (- 112)) =
     Fin (4503599627370497 / 2 ^ 52)"
  by (simp only: haversine_a_def Let_def diff_lat_back diff_lon_back toRadians_m16
        toRadians_m180 toRadians_8 toRadians_m8 half_dLat_back half_dLon_back
        sin_half_dLat_back sin_half_dLon_back cos_lat sin_squared_back cos_squared
        times_minus_one sum_above_one)

subsection \<open>A term above 1 makes the distance \<open>NaN\<close>\<close>

lemma js_mul_NaN [simp]: "js_mul x NaN = NaN"
  by (cases x) (simp_all add: js_mul_def)

lemma Math_sqrt_negative: "js_lt x (Fin 0) \<Longrightarrow> Math_sqrt x = NaN"
  by (cases x) (simp_all add: Math_sqrt_def js_lt_def)

lemma haversine_nan:
  assumes "js_lt (js_sub (Fin 1) (haversine_a rt lat1 lon1 lat2 lon2)) (Fin 0)"
  shows "haversineDistance rt lat1 lon1 lat2 lon2 = NaN"
  using Math_sqrt_negative [OF assms]
  by (simp add: haversineDistance_def Let_def Math_atan2_def)

text \<open>
  Claim C8 says that the distance from A to B and the distance from B to A are equal,
  within a relative tolerance of \<open>1e-9\<close> in floating point. The code misses it where
  rounding lifts the term \<open>a\<close> above 1: when \<open>1 - a\<close> comes out negative, the distance
  from A to B is \<open>NaN\<close>, which neither \<open>==\<close> nor the tolerance relates to the distance
  from B to A, whatever that is.
\<close>

theorem haversine_nan_not_symmetric:
  assumes "js_lt (js_sub (Fin 1) (haversine_a rt lat1 lon1 lat2 lon2)) (Fin 0)"
  shows "haversineDistance rt lat1 lon1 lat2 lon2 = NaN \<and>
         \<not> js_eq (haversineDistance rt lat1 lon1 lat2 lon2)
                 (haversineDistance rt lat2 lon2 lat1 lon1) \<and>
         \<not> within_tolerance (haversineDistance rt lat1 lon1 lat2 lon2)
                 (haversineDistance rt lat2 lon2 lat1 lon1)"
  using haversine_nan [OF assms] by (simp add: js_eq_def within_tolerance_def)

text \<open>
  The theorem at A = (-8, -112) and B = (8, 68), with correctly rounded sines and
  cosines: the distance is \<open>NaN\<close> in both directions.
\<close>

theorem haversine_nan_not_symmetric_witness:
  "js_lt (js_sub (Fin 1) (haversine_a rounded_math (Fin (- 8)) (Fin (- 112)) (Fin 8) (Fin 68)))
     (Fin 0) \<and>
   haversineDistance rounded_math (Fin (- 8)) (Fin (- 112)) (Fin 8) (Fin 68) = NaN \<and>
   haversineDistance rounded_math (Fin 8) (Fin 68) (Fin (- 8)) (Fin (- 112)) = NaN \<and>
   \<not> js_eq (haversineDistance rounded_math (Fin (- 8)) (Fin (- 112)) (Fin 8) (Fin 68))
           (haversineDistance rounded_math (Fin 8) (Fin 68) (Fin (- 8)) (Fin (- 112)))"
proof -
  have h: "js_lt (js_sub (Fin 1)
      (haversine_a rounded_math (Fin (- 8)) (Fin (- 112)) (Fin 8) (Fin 68))) (Fin 0)"
    by (simp only: a_at_antipode one_minus_a) (simp add: js_lt_def)
  have hb: "js_lt (js_sub (Fin 1)
      (haversine_a rounded_math (Fin 8) (Fin 68) (Fin (- 8)) (Fin (- 112)))) (Fin 0)"
    by (simp only: a_at_antipode_back one_minus_a) (simp add: js_lt_def)
  from haversine_nan_not_symmetric [OF h] haversine_nan [OF hb] h show ?thesis by blast
qed

subsection \<open>The scan\<close>

text \<open>
  Where no distance is \<open>NaN\<close> the loop returns the least of them: its result is the
  starting value or the distance to one of the points, and it is at most each of them.
\<close>

lemma Math_min_least:
  assumes "x \<noteq> NaN" and "y \<noteq> NaN"
  shows "Math_min x y \<noteq> NaN \<and> js_le (Math_min x y) x \<and> js_le (Math_min x y) y \<and>
         (Math_min x y = x \<or> Math_min x y = y)"
  using assms by (cases x; cases y) (auto simp: Math_min_def js_cmp_defs)

lemma coastLoop_least:
  assumes "m \<noteq> NaN"
      and "\<forall>pt\<in>set pts. haversineDistance rt (Fin qlat) (Fin qlon) (Fin (lat pt)) (Fin (lon pt)) \<noteq> NaN"
  shows "(coastLoop rt qlat qlon pts m = m \<or>
            (\<exists>pt\<in>set pts. coastLoop rt qlat qlon pts m =
               haversineDistance rt (Fin qlat) (Fin qlon) (Fin (lat pt)) (Fin (lon pt)))) \<and>
         js_le (coastLoop rt qlat qlon pts m) m \<and>
         (\<forall>pt\<in>set pts. js_le (coastLoop rt qlat qlon pts m)
               (haversineDistance rt (Fin qlat) (Fin qlon) (Fin (lat pt)) (Fin (lon pt))))"
  using assms
proof (induction pts arbitrary: m)
  case Nil
  then show ?case by (cases m) (simp_all add: js_le_def)
next
  case (Cons pt rest)
  let ?d = "haversineDistance rt (Fin qlat) (Fin qlon) (Fin (lat pt)) (Fin (lon pt))"
  let ?m = "Math_min m ?d"
  from Cons.prems have d: "?d \<noteq> NaN" by simp
  from Math_min_least [OF Cons.prems(1) d]
  have mf: "?m \<noteq> NaN" and mm: "js_le ?m m" and md: "js_le ?m ?d"
    and mc: "?m = m \<or> ?m = ?d" by blast+
  from Cons.prems have rest: "\<forall>q\<in>set rest.
      haversineDistance rt (Fin qlat) (Fin qlon) (Fin (lat q)) (Fin (lon q)) \<noteq> NaN" by simp
  from Cons.IH [OF mf rest]
  have ih1: "coastLoop rt qlat qlon rest ?m = ?m \<or>
            (\<exists>q\<in>set rest. coastLoop rt qlat qlon rest ?m =
               haversineDistance rt (Fin qlat) (Fin qlon) (Fin (lat q)) (Fin (lon q)))"
    and ih2: "js_le (coastLoop rt qlat qlon rest ?m) ?m"
    and ih3: "\<forall>q\<in>set rest. js_le (coastLoop rt qlat qlon rest ?m)
               (haversineDistance rt (Fin qlat) (Fin qlon) (Fin (lat q)) (Fin (lon q)))"
    by blast+
  have step: "coastLoop rt qlat qlon (pt # rest) m = coastLoop rt qlat qlon rest ?m"
    by simp
  have "js_le (coastLoop rt qlat qlon rest ?m) m" using ih2 mm by (rule js_le_trans)
  moreover have "js_le (coastLoop rt qlat qlon rest ?m) ?d" using ih2 md by (rule js_le_trans)
  moreover have "coastLoop rt qlat qlon rest ?m = m \<or>
      (\<exists>q\<in>set (pt # rest). coastLoop rt qlat qlon rest ?m =
         haversineDistance rt (Fin qlat) (Fin qlon) (Fin (lat q)) (Fin (lon q)))"
    using ih1 mc by auto
  ultimately show ?case
    unfolding step using ih3 by simp
qed

text \<open>One distance that is \<open>NaN\<close> makes the result of the loop \<open>NaN\<close>.\<close>

lemma Math_min_NaN [simp]: "Math_min NaN y = NaN" "Math_min x NaN = NaN"
  by (simp_all add: Math_min_def)

lemma coastLoop_NaN [simp]: "coastLoop rt qlat qlon pts NaN = NaN"
  by (induction pts) simp_all

lemma coastLoop_hits_NaN:
  assumes "pt \<in> set pts"
      and "haversineDistance rt (Fin qlat) (Fin qlon) (Fin (lat pt)) (Fin (lon pt)) = NaN"
  shows "coastLoop rt qlat qlon pts m = NaN"
  using assms(1)
proof (induction pts arbitrary: m)
  case Nil
  then show ?case by simp
next
  case (Cons q rest)
  show ?case
  proof (cases "q = pt")
    case True
    then show ?thesis using assms(2) by simp
  next
    case False
    with Cons.prems have "pt \<in> set rest" by simp
    from Cons.IH [OF this] show ?thesis by simp
  qed
qed

text \<open>
  Claim C5 says that \<open>getCoastDistance\<close> returns the least of the haversine distances
  from the query to the reference points. The code misses it where rounding lifts the
  term \<open>a\<close> above 1: when, for one reference point, \<open>1 - a\<close> comes out negative, a call
  that finds nothing in the cache returns \<open>NaN\<close>, whatever the other points are.
\<close>

theorem getCoastDistance_nan_above_one:
  assumes "pt \<in> set pts"
      and "js_lt (js_sub (Fin 1)
             (haversine_a rt (Fin qlat) (Fin qlon) (Fin (lat pt)) (Fin (lon pt)))) (Fin 0)"
      and "store (CoastKey qlat qlon) = None"
  shows "fst (getCoastDistance rt env pts store qlat qlon) = NaN"
proof -
  have "coastLoop rt qlat qlon pts PosInf = NaN"
    using assms(1) haversine_nan [OF assms(2)] by (rule coastLoop_hits_NaN)
  then show ?thesis
    using assms(3) by (simp add: getCoastDistance_def getFromCache_def Let_def)
qed

text \<open>
  The theorem for the query (-8, -112), with the reference points of Chennai and
  (8, 68), an empty storage and correctly rounded sines and cosines.
\<close>

theorem getCoastDistance_nan_above_one_witness:
  "\<lparr>lat = 8, lon = 68\<rparr> \<in> set [\<lparr>lat = 13.08, lon = 80.27\<rparr>, \<lparr>lat = 8, lon = 68\<rparr>] \<and>
   js_lt (js_sub (Fin 1) (haversine_a rounded_math (Fin (- 8)) (Fin (- 112)) (Fin 8) (Fin 68)))
     (Fin 0) \<and>
   (Map.empty :: local_storage) (CoastKey (- 8) (- 112)) = None \<and>
   fst (getCoastDistance rounded_math
          \<lparr>now = 0, storage_available = True, storage_has_room = True\<rparr>
          [\<lparr>lat = 13.08, lon = 80.27\<rparr>, \<lparr>lat = 8, lon = 68\<rparr>] Map.empty (- 8) (- 112)) = NaN"
proof -
  let ?pt = "\<lparr>lat = 8, lon = 68\<rparr>"
  let ?pts = "[\<lparr>lat = 13.08, lon = 80.27\<rparr>, ?pt]"
  have h1: "?pt \<in> set ?pts" by simp
  have "js_lt (js_sub (Fin 1)
      (haversine_a rounded_math (Fin (- 8)) (Fin (- 112)) (Fin 8) (Fin 68))) (Fin 0)"
    by (simp only: a_at_antipode one_minus_a) (simp add: js_lt_def)
  then have h2: "js_lt (js_sub (Fin 1)
      (haversine_a rounded_math (Fin (- 8)) (Fin (- 112)) (Fin (lat ?pt)) (Fin (lon ?pt)))) (Fin 0)"
    by simp
  have h3: "(Map.empty :: local_storage) (CoastKey (- 8) (- 112)) = None" by simp
  have "fst (getCoastDistance rounded_math
          \<lparr>now = 0, storage_available = True, storage_has_room = True\<rparr>
          ?pts Map.empty (- 8) (- 112)) = NaN"
    using h1 h2 h3 by (rule getCoastDistance_nan_above_one)
  with h1 \<open>js_lt (js_sub (Fin 1)
      (haversine_a rounded_math (Fin (- 8)) (Fin (- 112)) (Fin 8) (Fin 68))) (Fin 0)\<close> h3
  show ?thesis by blast
qed

end
